theory Spec2Isabelle
  imports Complex_Main "HOL-Library.Multiset"
begin

section \<open>Marketing Performance Analyzer: metrics, ranking, recommendations\<close>

text \<open>
  The analyzer (\<^verbatim>\<open>src/analyzer.py\<close>) is a pandas script. Its table columns are
  \<^verbatim>\<open>int64\<close> counters and \<^verbatim>\<open>float64\<close> amounts, and every derived metric is a
  \<^verbatim>\<open>float64\<close>. A table is modelled as the list of its rows, a column operation as the
  same operation on every row.

  A \<^verbatim>\<open>float64\<close> is modelled by \<open>fval\<close>: a finite value is an exact rational (the
  binary representation error of a double is not modelled), and the three special values
  of IEEE 754 are kept, because the code relies on them: dividing by zero raises nothing in
  pandas, it yields an infinity or not-a-number. Signed zeros are not modelled.
\<close>

subsection \<open>Values of a float column\<close>

datatype fval = NInf | Fin rat | PInf | NaN

text \<open>
  The order in which the library sorts values: \<open>-inf\<close>, the finite values, \<open>+inf\<close>,
  and not-a-number after everything else. This is the order of sorting only; the
  comparison operators of the language are \<open>flt\<close> and \<open>fgt\<close> below.
\<close>

fun fval_le :: "fval \<Rightarrow> fval \<Rightarrow> bool" where
  "fval_le NInf _ = True"
| "fval_le (Fin x) NInf = False"
| "fval_le (Fin x) (Fin y) = (x \<le> y)"
| "fval_le (Fin x) PInf = True"
| "fval_le (Fin x) NaN = True"
| "fval_le PInf NInf = False"
| "fval_le PInf (Fin y) = False"
| "fval_le PInf PInf = True"
| "fval_le PInf NaN = True"
| "fval_le NaN NaN = True"
| "fval_le NaN _ = False"

instantiation fval :: linorder
begin

definition less_eq_fval :: "fval \<Rightarrow> fval \<Rightarrow> bool" where
  "less_eq_fval a b = fval_le a b"

definition less_fval :: "fval \<Rightarrow> fval \<Rightarrow> bool" where
  "less_fval a b = (fval_le a b \<and> \<not> fval_le b a)"

instance
proof
  fix x y z :: fval
  show "(x < y) = (x \<le> y \<and> \<not> y \<le> x)"
    by (simp add: less_fval_def less_eq_fval_def)
  show "x \<le> x"
    by (cases x) (simp_all add: less_eq_fval_def)
  show "x \<le> y \<Longrightarrow> y \<le> z \<Longrightarrow> x \<le> z"
    by (cases x; cases y; cases z) (simp_all add: less_eq_fval_def)
  show "x \<le> y \<Longrightarrow> y \<le> x \<Longrightarrow> x = y"
    by (cases x; cases y) (simp_all add: less_eq_fval_def)
  show "x \<le> y \<or> y \<le> x"
    by (cases x; cases y) (auto simp add: less_eq_fval_def)
qed

end

text \<open>The comparisons \<^verbatim>\<open><\<close> and \<^verbatim>\<open>>\<close> of the language: false as soon as one side is
  not-a-number.\<close>

definition flt :: "fval \<Rightarrow> fval \<Rightarrow> bool" where
  "flt a b = (a \<noteq> NaN \<and> b \<noteq> NaN \<and> a < b)"

definition fgt :: "fval \<Rightarrow> fval \<Rightarrow> bool" where
  "fgt a b = flt b a"

subsection \<open>Arithmetic of a float column\<close>

fun fneg :: "fval \<Rightarrow> fval" where
  "fneg NInf = PInf"
| "fneg (Fin x) = Fin (- x)"
| "fneg PInf = NInf"
| "fneg NaN = NaN"

fun fadd :: "fval \<Rightarrow> fval \<Rightarrow> fval" where
  "fadd NaN _ = NaN"
| "fadd _ NaN = NaN"
| "fadd (Fin x) (Fin y) = Fin (x + y)"
| "fadd PInf NInf = NaN"
| "fadd NInf PInf = NaN"
| "fadd PInf _ = PInf"
| "fadd _ PInf = PInf"
| "fadd NInf _ = NInf"
| "fadd _ NInf = NInf"

definition fsub :: "fval \<Rightarrow> fval \<Rightarrow> fval" where
  "fsub a b = fadd a (fneg b)"

text \<open>The sign of a value that is not not-a-number: \<open>-1\<close>, \<open>0\<close> or \<open>1\<close>.\<close>

fun fsgn :: "fval \<Rightarrow> int" where
  "fsgn NInf = - 1"
| "fsgn (Fin x) = (if x < 0 then - 1 else if x = 0 then 0 else 1)"
| "fsgn PInf = 1"
| "fsgn NaN = 0"

definition inf_of_sign :: "int \<Rightarrow> fval" where
  "inf_of_sign s = (if s = 0 then NaN else if 0 < s then PInf else NInf)"

fun fmul :: "fval \<Rightarrow> fval \<Rightarrow> fval" where
  "fmul NaN _ = NaN"
| "fmul _ NaN = NaN"
| "fmul (Fin x) (Fin y) = Fin (x * y)"
| "fmul a b = inf_of_sign (fsgn a * fsgn b)"

text \<open>
  Division as pandas performs it on numeric columns and numpy on its scalars: no
  \<^verbatim>\<open>ZeroDivisionError\<close>; a nonzero value over zero is an infinity with the sign of the
  numerator, zero over zero is not-a-number.
\<close>

fun fdiv :: "fval \<Rightarrow> fval \<Rightarrow> fval" where
  "fdiv NaN _ = NaN"
| "fdiv _ NaN = NaN"
| "fdiv (Fin x) (Fin y) = (if y = 0 then inf_of_sign (fsgn (Fin x)) else Fin (x / y))"
| "fdiv (Fin x) _ = Fin 0"
| "fdiv a (Fin y) = inf_of_sign (fsgn a * (if y < 0 then - 1 else 1))"
| "fdiv _ _ = NaN"

subsection \<open>Rounding to two decimals\<close>

text \<open>
  \<^verbatim>\<open>Series.round(2)\<close> is numpy's \<^verbatim>\<open>round\<close>: scale by \<open>10\<^sup>2\<close>, round to the nearest
  integer with ties going to the even one (\<^verbatim>\<open>rint\<close>), scale back. Infinities and
  not-a-number pass through.
\<close>

definition rint :: "rat \<Rightarrow> int" where
  "rint x =
     (let f = \<lfloor>x\<rfloor>; d = x - of_int f
      in if d < 1 / 2 then f
         else if 1 / 2 < d then f + 1
         else if even f then f else f + 1)"

definition round2 :: "rat \<Rightarrow> rat" where
  "round2 x = of_int (rint (x * 100)) / 100"

fun fround2 :: "fval \<Rightarrow> fval" where
  "fround2 (Fin x) = Fin (round2 x)"
| "fround2 v = v"

text \<open>
  What the specification asks of a rounded metric: \<open>v\<close> is a whole number of hundredths,
  at most 0.005 away from \<open>x\<close>, and an even number of hundredths when \<open>x\<close> lies exactly
  halfway between two of them.
\<close>

definition rounds_to :: "rat \<Rightarrow> fval \<Rightarrow> bool" where
  "rounds_to x v =
     (\<exists>k::int. v = Fin (of_int k / 100) \<and> \<bar>of_int k / 100 - x\<bar> \<le> 1 / 200 \<and>
        (\<bar>of_int k / 100 - x\<bar> = 1 / 200 \<longrightarrow> even k))"

subsection \<open>The tables\<close>

text \<open>A row of the input table (\<^verbatim>\<open>sample_data.csv\<close>).\<close>

record campaign =
  campaign_name :: string
  impressions :: int
  clicks :: int
  conversions :: int
  spend :: rat

text \<open>A row of \<^verbatim>\<open>df_metrics\<close>: the input columns and the five metric columns.\<close>

record metrics = campaign +
  CTR :: fval
  CPC :: fval
  CPA :: fval
  conversion_rate :: fval
  ROI :: fval

text \<open>A row of \<^verbatim>\<open>df_ranked\<close>: \<^verbatim>\<open>rank\<close> is the column inserted by the ranker.\<close>

record ranked = metrics +
  rank :: nat

subsection \<open>\<^verbatim>\<open>calculate_metrics\<close>\<close>

definition avg_order_value :: rat where
  "avg_order_value = 50"

text \<open>Lines 62 to 84: the copy of the row with the five metrics at full precision.\<close>

definition derive_metrics :: "campaign \<Rightarrow> metrics" where
  "derive_metrics c =
     (let revenue = Fin (of_int (conversions c) * avg_order_value) in
      campaign.extend c
        (metrics.fields
          (fmul (fdiv (Fin (of_int (clicks c))) (Fin (of_int (impressions c)))) (Fin 100))
          (fdiv (Fin (spend c)) (Fin (of_int (clicks c))))
          (fdiv (Fin (spend c)) (Fin (of_int (conversions c))))
          (fmul (fdiv (Fin (of_int (conversions c))) (Fin (of_int (clicks c)))) (Fin 100))
          (fmul (fdiv (fsub revenue (Fin (spend c))) (Fin (spend c))) (Fin 100))))"

text \<open>Lines 87 to 91: each metric column is overwritten by its rounded values.\<close>

definition round_metrics :: "metrics \<Rightarrow> metrics" where
  "round_metrics m =
     m\<lparr>CTR := fround2 (CTR m), CPC := fround2 (CPC m), CPA := fround2 (CPA m),
       conversion_rate := fround2 (conversion_rate m), ROI := fround2 (ROI m)\<rparr>"

definition calculate_metrics :: "campaign list \<Rightarrow> metrics list" where
  "calculate_metrics df = map (\<lambda>c. round_metrics (derive_metrics c)) df"

subsection \<open>\<^verbatim>\<open>rank_campaigns\<close>\<close>

text \<open>
  Line 107 calls \<^verbatim>\<open>sort_values('ROI', ascending=False)\<close> with the library's defaults:
  \<^verbatim>\<open>na_position='last'\<close> and \<^verbatim>\<open>kind='quicksort'\<close>. For one sort column pandas
  sets the rows whose key is not-a-number aside, reverses the remaining keys, asks numpy
  for the permutation that sorts them in ascending order, reverses that permutation, and
  appends the rows set aside in their input order.

  The permutation comes from numpy's \<^verbatim>\<open>argsort\<close>. The library documents the default
  kind as a sorting algorithm that is not stable, and which permutation it returns on
  equal keys depends on the numpy build. So \<open>argsort\<close> is a parameter of the model:
  \<open>argsort ks\<close> is the list of positions of \<open>ks\<close> in the order the library returns them,
  and \<open>argsort_ok\<close> is what every sorting kind guarantees.
\<close>

definition argsort_ok :: "(fval list \<Rightarrow> nat list) \<Rightarrow> bool" where
  "argsort_ok argsort =
     (\<forall>ks. mset (argsort ks) = mset [0..<length ks] \<and>
           sorted (map (\<lambda>i. ks ! i) (argsort ks)))"

text \<open>A sort that keeps equal keys in the order of their positions
  (\<^verbatim>\<open>kind='stable'\<close>).\<close>

definition argsort_stable :: "fval list \<Rightarrow> nat list" where
  "argsort_stable ks = sort_key (\<lambda>i. ks ! i) [0..<length ks]"



definition sort_values_ROI :: "(fval list \<Rightarrow> nat list) \<Rightarrow> metrics list \<Rightarrow> metrics list" where
  "sort_values_ROI argsort df =
     (let idx = [0..<length df];
          non_nan_idx = rev (filter (\<lambda>i. ROI (df ! i) \<noteq> NaN) idx);
          nan_idx = filter (\<lambda>i. ROI (df ! i) = NaN) idx;
          non_nans = map (\<lambda>i. ROI (df ! i)) non_nan_idx;
          indexer = rev (map (\<lambda>j. non_nan_idx ! j) (argsort non_nans))
      in map (\<lambda>i. df ! i) (indexer @ nan_idx))"

text \<open>Line 108 inserts the column \<^verbatim>\<open>rank\<close> with the values
  \<^verbatim>\<open>range(1, len(df_ranked) + 1)\<close>.\<close>

definition rank_campaigns :: "(fval list \<Rightarrow> nat list) \<Rightarrow> metrics list \<Rightarrow> ranked list" where
  "rank_campaigns argsort df_metrics =
     (let df_sorted = sort_values_ROI argsort df_metrics
      in map (\<lambda>(k, m). metrics.extend m (ranked.fields k))
           (zip [1..<length df_sorted + 1] df_sorted))"


subsection \<open>Median and quantile of a column\<close>

text \<open>
  \<^verbatim>\<open>Series.median()\<close> and \<^verbatim>\<open>Series.quantile(q)\<close> skip the not-a-number entries and
  return not-a-number for what is then an empty column. The median is the middle value of
  the sorted entries, or the mean of the two middle ones; the quantile interpolates
  linearly between the two entries around position \<open>(n - 1) * q\<close>, with the formula of
  numpy's \<^verbatim>\<open>_lerp\<close>.
\<close>

definition dropna :: "fval list \<Rightarrow> fval list" where
  "dropna col = filter (\<lambda>v. v \<noteq> NaN) col"

definition median :: "fval list \<Rightarrow> fval" where
  "median col =
     (let vs = sort (dropna col); n = length vs
      in if n = 0 then NaN
         else if odd n then vs ! (n div 2)
         else fdiv (fadd (vs ! (n div 2 - 1)) (vs ! (n div 2))) (Fin 2))"

definition lerp :: "fval \<Rightarrow> fval \<Rightarrow> rat \<Rightarrow> fval" where
  "lerp a b t =
     (let diff_b_a = fsub b a
      in if 1 / 2 \<le> t then fsub b (fmul diff_b_a (Fin (1 - t)))
         else fadd a (fmul diff_b_a (Fin t)))"

definition quantile :: "rat \<Rightarrow> fval list \<Rightarrow> fval" where
  "quantile q col =
     (let vs = sort (dropna col); n = length vs
      in if n = 0 then NaN
         else let h = of_nat (n - 1) * q;
                  lo = nat \<lfloor>h\<rfloor>;
                  hi = min (lo + 1) (n - 1)
              in lerp (vs ! lo) (vs ! hi) (h - of_int \<lfloor>h\<rfloor>))"

text \<open>
  The standard definition of a quantile by linear interpolation, as the specification
  words it, on a column of \<open>n > 0\<close> numbers: with \<open>s\<close> the sorted column and
  \<open>h = (n - 1) * q\<close>, the value lies between \<open>s ! \<lfloor>h\<rfloor>\<close> and its successor, at the
  fraction \<open>h - \<lfloor>h\<rfloor>\<close> of the way. The median is the quantile \<open>1 / 2\<close>.
\<close>

definition interpolated_quantile :: "rat \<Rightarrow> rat list \<Rightarrow> rat" where
  "interpolated_quantile q xs =
     (let s = sort xs;
          h = of_nat (length xs - 1) * q;
          lo = nat \<lfloor>h\<rfloor>;
          hi = min (lo + 1) (length xs - 1)
      in s ! lo + (h - of_int \<lfloor>h\<rfloor>) * (s ! hi - s ! lo))"

subsection \<open>\<^verbatim>\<open>generate_recommendations\<close>\<close>

text \<open>
  The function prints five sections. The model returns what each section selects and
  computes; the texts printed around it are constant. \<open>df\<close> is \<^verbatim>\<open>df_ranked\<close>.
\<close>

text \<open>Sections 1 and 2: \<^verbatim>\<open>head(3)\<close> and \<^verbatim>\<open>tail(3)\<close>, and the three tests printed for
  each row of the tail (lines 168 to 173).\<close>

definition top_3 :: "ranked list \<Rightarrow> ranked list" where
  "top_3 df = take 3 df"

definition bottom_3 :: "ranked list \<Rightarrow> ranked list" where
  "bottom_3 df = drop (length df - 3) df"

record findings =
  low_ctr :: bool
  low_conversion_rate :: bool
  negative_roi :: bool

definition row_findings :: "ranked list \<Rightarrow> ranked \<Rightarrow> findings" where
  "row_findings df row =
     \<lparr>low_ctr = flt (CTR row) (median (map CTR df)),
      low_conversion_rate = flt (conversion_rate row) (median (map conversion_rate df)),
      negative_roi = flt (ROI row) (Fin 0)\<rparr>"

text \<open>Section 3 (lines 177 to 180).\<close>

definition high_ctr_low_conv :: "ranked list \<Rightarrow> ranked list" where
  "high_ctr_low_conv df =
     filter (\<lambda>r. fgt (CTR r) (quantile (3 / 4) (map CTR df)) \<and>
                 flt (conversion_rate r) (median (map conversion_rate df))) df"

text \<open>Section 4 (lines 192 to 208). The two sums are numpy scalars, so their quotient
  is a float division.\<close>

definition total_spend :: "ranked list \<Rightarrow> rat" where
  "total_spend df = sum_list (map spend df)"

definition total_conversions :: "ranked list \<Rightarrow> int" where
  "total_conversions df = sum_list (map conversions df)"

definition avg_cpa :: "ranked list \<Rightarrow> fval" where
  "avg_cpa df = fdiv (Fin (total_spend df)) (Fin (of_int (total_conversions df)))"

definition efficient_campaigns :: "ranked list \<Rightarrow> ranked list" where
  "efficient_campaigns df = filter (\<lambda>r. flt (CPA r) (avg_cpa df)) df"

definition inefficient_campaigns :: "ranked list \<Rightarrow> ranked list" where
  "inefficient_campaigns df = filter (\<lambda>r. fgt (CPA r) (avg_cpa df)) df"

text \<open>Section 5 (lines 219 to 229): the rows selected, and the branch on
  \<^verbatim>\<open>quick_wins.empty\<close>, whose \<^verbatim>\<open>else\<close> prints
  \<^verbatim>\<open>No obvious quick wins identified. Focus on optimizing underperformers.\<close>\<close>

definition quick_wins :: "ranked list \<Rightarrow> ranked list" where
  "quick_wins df =
     filter (\<lambda>r. fgt (ROI r) (median (map ROI df)) \<and>
                 flt (Fin (spend r)) (median (map (\<lambda>r. Fin (spend r)) df))) df"

datatype quick_wins_section = Scale_up "ranked list" | No_quick_wins

definition quick_wins_section :: "ranked list \<Rightarrow> quick_wins_section" where
  "quick_wins_section df =
     (if quick_wins df \<noteq> [] then Scale_up (quick_wins df) else No_quick_wins)"

record report =
  top_performers :: "ranked list"
  underperformers :: "(ranked \<times> findings) list"
  landing_page :: "ranked list"
  budget_total_spend :: rat
  budget_total_conversions :: int
  budget_avg_cpa :: fval
  above_average :: nat
  below_average :: nat
  quick :: quick_wins_section

definition generate_recommendations :: "ranked list \<Rightarrow> report" where
  "generate_recommendations df =
     \<lparr>top_performers = top_3 df,
      underperformers = map (\<lambda>row. (row, row_findings df row)) (bottom_3 df),
      landing_page = high_ctr_low_conv df,
      budget_total_spend = total_spend df,
      budget_total_conversions = total_conversions df,
      budget_avg_cpa = avg_cpa df,
      above_average = length (efficient_campaigns df),
      below_average = length (inefficient_campaigns df),
      quick = quick_wins_section df\<rparr>"

subsection \<open>Example tables\<close>

text \<open>The two campaigns A and B of the specification's scenario.\<close>

definition spec_example :: "campaign list" where
  "spec_example =
     [\<lparr>campaign_name = ''A'', impressions = 1000, clicks = 100, conversions = 10, spend = 200\<rparr>,
      \<lparr>campaign_name = ''B'', impressions = 1000, clicks = 50, conversions = 1, spend = 300\<rparr>]"




text \<open>Zero denominators: Z has no clicks and no conversions, N has neither conversions
  nor spend, F has conversions and no spend.\<close>

definition no_conversions_example :: "campaign list" where
  "no_conversions_example =
     [\<lparr>campaign_name = ''Z'', impressions = 1000, clicks = 0, conversions = 0, spend = 200\<rparr>]"



definition row_Z :: ranked where
  "row_Z =
     \<lparr>campaign_name = ''Z'', impressions = 1000, clicks = 0, conversions = 0, spend = 200,
      CTR = Fin 0, CPC = PInf, CPA = PInf, conversion_rate = NaN, ROI = Fin (- 100),
      rank = 1\<rparr>"

text \<open>Two campaigns whose ROI, \<open>-99.8333\<dots>\<close> and \<open>-99.83333\<dots>\<close>, differ after the second
  decimal only.\<close>

definition rounding_example :: "campaign list" where
  "rounding_example =
     [\<lparr>campaign_name = ''R1'', impressions = 1000, clicks = 100, conversions = 1, spend = 30000\<rparr>,
      \<lparr>campaign_name = ''R2'', impressions = 1000, clicks = 100, conversions = 1, spend = 30001\<rparr>]"

definition row_R1 :: ranked where
  "row_R1 =
     \<lparr>campaign_name = ''R1'', impressions = 1000, clicks = 100, conversions = 1, spend = 30000,
      CTR = Fin 10, CPC = Fin 300, CPA = Fin 30000, conversion_rate = Fin 1,
      ROI = Fin (- (9983 / 100)), rank = 1\<rparr>"

text \<open>Four campaigns with the CTR values 1, 2, 3 and 4 and the conversion rates 100, 50,
  100 and 25.\<close>

definition ctr_example :: "campaign list" where
  "ctr_example =
     [\<lparr>campaign_name = ''c1'', impressions = 100, clicks = 1, conversions = 1, spend = 10\<rparr>,
      \<lparr>campaign_name = ''c2'', impressions = 100, clicks = 2, conversions = 1, spend = 10\<rparr>,
      \<lparr>campaign_name = ''c3'', impressions = 100, clicks = 3, conversions = 3, spend = 10\<rparr>,
      \<lparr>campaign_name = ''c4'', impressions = 100, clicks = 4, conversions = 1, spend = 10\<rparr>]"

definition row_c4 :: ranked where
  "row_c4 =
     \<lparr>campaign_name = ''c4'', impressions = 100, clicks = 4, conversions = 1, spend = 10,
      CTR = Fin 4, CPC = Fin (5 / 2), CPA = Fin 10, conversion_rate = Fin 25, ROI = Fin 400,
      rank = 4\<rparr>"

text \<open>The campaigns A and B, and a campaign without any activity, all of whose metrics
  are not-a-number.\<close>

definition nan_example :: "campaign list" where
  "nan_example =
     [\<lparr>campaign_name = ''A'', impressions = 1000, clicks = 100, conversions = 10, spend = 200\<rparr>,
      \<lparr>campaign_name = ''B'', impressions = 1000, clicks = 50, conversions = 1, spend = 300\<rparr>,
      \<lparr>campaign_name = ''N'', impressions = 0, clicks = 0, conversions = 0, spend = 0\<rparr>]"

definition row_A :: ranked where
  "row_A =
     \<lparr>campaign_name = ''A'', impressions = 1000, clicks = 100, conversions = 10, spend = 200,
      CTR = Fin 10, CPC = Fin 2, CPA = Fin 20, conversion_rate = Fin 10, ROI = Fin 150,
      rank = 1\<rparr>"

definition row_N :: ranked where
  "row_N =
     \<lparr>campaign_name = ''N'', impressions = 0, clicks = 0, conversions = 0, spend = 0,
      CTR = NaN, CPC = NaN, CPA = NaN, conversion_rate = NaN, ROI = NaN, rank = 3\<rparr>"

section \<open>Properties of the library sort and of the ranker\<close>

lemma argsort_stable_ok: "argsort_ok argsort_stable"
  by (simp add: argsort_ok_def argsort_stable_def)




lemma mset_map_nth_perm:
  assumes "mset js = mset [0..<length xs]"
  shows "mset (map (\<lambda>j. xs ! j) js) = mset xs"
proof -
  have "mset (map (\<lambda>j. xs ! j) js) = image_mset (\<lambda>j. xs ! j) (mset js)" by simp
  also have "\<dots> = mset (map (\<lambda>j. xs ! j) [0..<length xs])" using assms by simp
  also have "\<dots> = mset xs" by (simp add: map_nth)
  finally show ?thesis .
qed

lemma mset_filter_split:
  "mset (filter (\<lambda>x. \<not> Q x) xs) + mset (filter Q xs) = mset xs"
  by (induction xs) simp_all

lemma sort_values_ROI_mset:
  assumes "argsort_ok argsort"
  shows "mset (sort_values_ROI argsort df) = mset df"
proof -
  define P where "P = rev (filter (\<lambda>i. ROI (df ! i) \<noteq> NaN) [0..<length df])"
  define K where "K = map (\<lambda>i. ROI (df ! i)) P"
  have lenK: "length K = length P" by (simp add: K_def)
  have "mset (argsort K) = mset [0..<length P]"
    using assms lenK by (simp add: argsort_ok_def)
  then have 1: "mset (map (\<lambda>j. P ! j) (argsort K)) = mset P"
    by (rule mset_map_nth_perm)
  have "mset (rev (map (\<lambda>j. P ! j) (argsort K)) @ filter (\<lambda>i. ROI (df ! i) = NaN) [0..<length df])
        = mset P + mset (filter (\<lambda>i. ROI (df ! i) = NaN) [0..<length df])"
    using 1 by simp
  also have "\<dots> = mset [0..<length df]"
    unfolding P_def mset_rev by (rule mset_filter_split)
  finally have "mset (rev (map (\<lambda>j. P ! j) (argsort K)) @ filter (\<lambda>i. ROI (df ! i) = NaN) [0..<length df])
        = mset [0..<length df]" .
  then have "mset (map (\<lambda>i. df ! i) (rev (map (\<lambda>j. P ! j) (argsort K)) @ filter (\<lambda>i. ROI (df ! i) = NaN) [0..<length df]))
        = mset df"
    by (rule mset_map_nth_perm)
  then show ?thesis
    by (simp add: sort_values_ROI_def Let_def P_def K_def)
qed










lemma insert_rank_rows:
  "length ks = length xs \<Longrightarrow>
   map metrics.truncate (map (\<lambda>(k, m). metrics.extend m (ranked.fields k)) (zip ks xs)) = xs"
proof -
  assume len: "length ks = length xs"
  have "map metrics.truncate (map (\<lambda>(k, m). metrics.extend m (ranked.fields k)) (zip ks xs))
        = map snd (zip ks xs)"
    by (simp add: metrics.defs ranked.defs split_beta)
  with len show ?thesis by simp
qed

lemma rank_campaigns_rows:
  "map metrics.truncate (rank_campaigns argsort df) = sort_values_ROI argsort df"
  unfolding rank_campaigns_def Let_def by (rule insert_rank_rows) (simp del: upt_Suc)



section \<open>The Metric Calculator\<close>



lemma round_derive_CTR:
  "CTR (round_metrics (derive_metrics c)) =
     fround2 (fmul (fdiv (Fin (of_int (clicks c))) (Fin (of_int (impressions c)))) (Fin 100))"
  by (simp add: derive_metrics_def round_metrics_def Let_def campaign.defs metrics.defs)

lemma round_derive_CPC:
  "CPC (round_metrics (derive_metrics c)) =
     fround2 (fdiv (Fin (spend c)) (Fin (of_int (clicks c))))"
  by (simp add: derive_metrics_def round_metrics_def Let_def campaign.defs metrics.defs)

lemma round_derive_CPA:
  "CPA (round_metrics (derive_metrics c)) =
     fround2 (fdiv (Fin (spend c)) (Fin (of_int (conversions c))))"
  by (simp add: derive_metrics_def round_metrics_def Let_def campaign.defs metrics.defs)

lemma round_derive_conversion_rate:
  "conversion_rate (round_metrics (derive_metrics c)) =
     fround2 (fmul (fdiv (Fin (of_int (conversions c))) (Fin (of_int (clicks c)))) (Fin 100))"
  by (simp add: derive_metrics_def round_metrics_def Let_def campaign.defs metrics.defs)

lemma round_derive_ROI:
  "ROI (round_metrics (derive_metrics c)) =
     fround2 (fmul (fdiv (fsub (Fin (of_int (conversions c) * 50)) (Fin (spend c)))
                      (Fin (spend c))) (Fin 100))"
  by (simp add: derive_metrics_def round_metrics_def Let_def campaign.defs metrics.defs
        avg_order_value_def)

lemmas round_derive_fields =
  round_derive_CTR round_derive_CPC round_derive_CPA round_derive_conversion_rate round_derive_ROI



section \<open>Rounding\<close>




lemma rint_of_int: "rint (of_int k) = k"
  by (simp add: rint_def Let_def)

lemma round2_idem: "round2 (round2 x) = round2 x"
  by (simp add: round2_def rint_of_int)

lemma fround2_idem: "fround2 (fround2 v) = fround2 v"
  by (cases v) (simp_all add: round2_idem)

text \<open>\<open>rounds_to\<close> leaves no choice: it determines the rounded value.\<close>

lemma rounds_to_unique:
  assumes "rounds_to x v" "rounds_to x w"
  shows "v = w"
proof -
  from assms obtain k l :: int where
    k: "v = Fin (of_int k / 100)" "\<bar>of_int k / 100 - x\<bar> \<le> 1 / 200"
       "\<bar>of_int k / 100 - x\<bar> = 1 / 200 \<longrightarrow> even k"
    and l: "w = Fin (of_int l / 100)" "\<bar>of_int l / 100 - x\<bar> \<le> 1 / 200"
       "\<bar>of_int l / 100 - x\<bar> = 1 / 200 \<longrightarrow> even l"
    unfolding rounds_to_def by blast
  have sk: "of_int k / 100 - x = (of_int k - x * 100) / 100"
    and sl: "of_int l / 100 - x = (of_int l - x * 100) / 100"
    by (simp_all add: field_simps)
  have ak: "\<bar>of_int k - x * 100\<bar> \<le> 1 / 2" and al: "\<bar>of_int l - x * 100\<bar> \<le> 1 / 2"
    using k(2) l(2) unfolding sk sl by (simp_all add: abs_divide)
  have tk: "\<bar>of_int k - x * 100\<bar> = 1 / 2 \<longrightarrow> even k"
    and tl: "\<bar>of_int l - x * 100\<bar> = 1 / 2 \<longrightarrow> even l"
    using k(3) l(3) unfolding sk sl by (simp_all add: abs_divide)
  have "\<bar>(of_int k :: rat) - of_int l\<bar> \<le> 1"
    using ak al by linarith
  then have "\<bar>(of_int (k - l) :: rat)\<bar> \<le> of_int 1" by simp
  then have kl: "\<bar>k - l\<bar> \<le> 1"
    unfolding of_int_abs [symmetric] of_int_le_iff .
  have "k = l"
  proof (rule ccontr)
    assume ne: "k \<noteq> l"
    with kl have c: "k = l + 1 \<or> l = k + 1" by linarith
    then have "(of_int k :: rat) = of_int l + 1 \<or> (of_int l :: rat) = of_int k + 1"
      by auto
    then have "\<bar>of_int k - x * 100\<bar> = 1 / 2 \<and> \<bar>of_int l - x * 100\<bar> = 1 / 2"
      using ak al by linarith
    with tk tl have "even k" "even l" by simp_all
    with c show False by auto
  qed
  with k(1) l(1) show ?thesis by simp
qed



section \<open>The Ranker\<close>




section \<open>Zero denominators\<close>







section \<open>Rounded columns downstream of the calculator\<close>

lemma fround2_round_derive:
  "fround2 (CTR (round_metrics (derive_metrics c))) = CTR (round_metrics (derive_metrics c))"
  "fround2 (CPC (round_metrics (derive_metrics c))) = CPC (round_metrics (derive_metrics c))"
  "fround2 (CPA (round_metrics (derive_metrics c))) = CPA (round_metrics (derive_metrics c))"
  "fround2 (conversion_rate (round_metrics (derive_metrics c)))
     = conversion_rate (round_metrics (derive_metrics c))"
  "fround2 (ROI (round_metrics (derive_metrics c))) = ROI (round_metrics (derive_metrics c))"
  unfolding round_derive_fields by (rule fround2_idem)+

lemma truncate_fields:
  "CTR (metrics.truncate r) = CTR r" "CPC (metrics.truncate r) = CPC r"
  "CPA (metrics.truncate r) = CPA r" "conversion_rate (metrics.truncate r) = conversion_rate r"
  "ROI (metrics.truncate r) = ROI r"
  by (simp_all add: metrics.defs)

lemma rank_campaigns_row_in:
  assumes "argsort_ok argsort" "r \<in> set (rank_campaigns argsort ms)"
  shows "metrics.truncate r \<in> set ms"
proof -
  from assms(2) have "metrics.truncate r \<in> set (map metrics.truncate (rank_campaigns argsort ms))"
    by simp
  then have "metrics.truncate r \<in> set (sort_values_ROI argsort ms)"
    unfolding rank_campaigns_rows .
  then have "metrics.truncate r \<in># mset (sort_values_ROI argsort ms)"
    by simp
  then show ?thesis
    unfolding sort_values_ROI_mset [OF assms(1)] by simp
qed

lemma sum_list_mset_cong:
  fixes f :: "'a \<Rightarrow> 'b::comm_monoid_add"
  assumes "mset xs = mset ys"
  shows "sum_list (map f xs) = sum_list (map f ys)"
proof -
  have "sum_mset (image_mset f (mset xs)) = sum_mset (image_mset f (mset ys))"
    using assms by simp
  then show ?thesis
    by (simp only: mset_map [symmetric] sum_mset_sum_list)
qed

lemma ranked_sums:
  assumes "argsort_ok argsort"
  shows "sum_list (map spend (rank_campaigns argsort (calculate_metrics df)))
         = sum_list (map spend df)"
    and "sum_list (map conversions (rank_campaigns argsort (calculate_metrics df)))
         = sum_list (map conversions df)"
proof -
  let ?rs = "rank_campaigns argsort (calculate_metrics df)"
  have perm: "mset (map metrics.truncate ?rs) = mset (calculate_metrics df)"
    unfolding rank_campaigns_rows using assms by (rule sort_values_ROI_mset)
  have s1: "map spend ?rs = map spend (map metrics.truncate ?rs)"
    by (simp add: metrics.defs)
  have s2: "map spend (calculate_metrics df) = map spend df"
    by (simp add: calculate_metrics_def derive_metrics_def round_metrics_def Let_def
          campaign.defs metrics.defs)
  show "sum_list (map spend ?rs) = sum_list (map spend df)"
    unfolding s1 using sum_list_mset_cong [OF perm, of spend] by (simp only: s2)
  have c1: "map conversions ?rs = map conversions (map metrics.truncate ?rs)"
    by (simp add: metrics.defs)
  have c2: "map conversions (calculate_metrics df) = map conversions df"
    by (simp add: calculate_metrics_def derive_metrics_def round_metrics_def Let_def
          campaign.defs metrics.defs)
  show "sum_list (map conversions ?rs) = sum_list (map conversions df)"
    unfolding c1 using sum_list_mset_cong [OF perm, of conversions] by (simp only: c2)
qed

lemma ranked_avg_cpa:
  assumes "argsort_ok argsort"
  shows "avg_cpa (rank_campaigns argsort (calculate_metrics df))
         = fdiv (Fin (sum_list (map spend df))) (Fin (of_int (sum_list (map conversions df))))"
  unfolding avg_cpa_def total_spend_def total_conversions_def ranked_sums [OF assms] ..

text \<open>
  Against claim C4 as stated. The calculator overwrites the metric columns with their
  rounded values, so the ranker and the classifier never see the full precision. R1 and
  R2 have the ROI \<open>-99.8333\<dots>\<close> and \<open>-99.83333\<dots>\<close>; both are stored as \<open>-99.83\<close>. On
  the stored values the median ROI is \<open>-99.83\<close>, no row exceeds it and there is no
  quick win; on the full-precision values R1 exceeds the median and is a quick win.
\<close>

theorem rounding_downstream_counterexample:
  "map (\<lambda>r. (campaign_name r, ROI r))
      (rank_campaigns argsort_stable (calculate_metrics rounding_example))
     = [(''R1'', Fin (- (9983 / 100))), (''R2'', Fin (- (9983 / 100)))]
   \<and> map (\<lambda>r. (campaign_name r, ROI r))
      (rank_campaigns argsort_stable (map derive_metrics rounding_example))
     = [(''R1'', Fin (- (599 / 6))), (''R2'', Fin (- (2995100 / 30001)))]
   \<and> quick_wins (rank_campaigns argsort_stable (calculate_metrics rounding_example)) = []
   \<and> map campaign_name
        (quick_wins (rank_campaigns argsort_stable (map derive_metrics rounding_example)))
     = [''R1'']"
proof -
  have 1: "map (\<lambda>r. (campaign_name r, ROI r))
      (rank_campaigns argsort_stable (calculate_metrics rounding_example))
     = [(''R1'', Fin (- (9983 / 100))), (''R2'', Fin (- (9983 / 100)))]"
    by code_simp
  have 2: "map (\<lambda>r. (campaign_name r, ROI r))
      (rank_campaigns argsort_stable (map derive_metrics rounding_example))
     = [(''R1'', Fin (- (599 / 6))), (''R2'', Fin (- (2995100 / 30001)))]"
    by code_simp
  have 3: "quick_wins (rank_campaigns argsort_stable (calculate_metrics rounding_example)) = []"
    by code_simp
  have 4: "map campaign_name
        (quick_wins (rank_campaigns argsort_stable (map derive_metrics rounding_example)))
     = [''R1'']"
    by code_simp
  from 1 2 3 4 show ?thesis by (intro conjI)
qed

text \<open>
  Claim C4, amended. Rounding happens inside the Metric Calculator, on the stored
  columns. Every row the ranker returns, which is every row the classifier reads, is a
  row of the calculator's output, and each of its five metrics is a rounded value
  (rounding it again changes nothing). Ranking by ROI and the classifier's medians,
  percentile and comparisons therefore operate on the rounded values. Only the average
  CPA is computed from unrounded values, the sums of the spend and conversions columns.
\<close>

theorem downstream_values_rounded:
  assumes "argsort_ok argsort" and "r \<in> set (rank_campaigns argsort (calculate_metrics df))"
  shows "metrics.truncate r \<in> set (calculate_metrics df)
    \<and> (\<exists>c \<in> set df. metrics.truncate r = round_metrics (derive_metrics c))
    \<and> fround2 (CTR r) = CTR r \<and> fround2 (CPC r) = CPC r \<and> fround2 (CPA r) = CPA r
    \<and> fround2 (conversion_rate r) = conversion_rate r \<and> fround2 (ROI r) = ROI r
    \<and> budget_avg_cpa (generate_recommendations (rank_campaigns argsort (calculate_metrics df)))
        = fdiv (Fin (sum_list (map spend df))) (Fin (of_int (sum_list (map conversions df))))"
proof -
  have 1: "metrics.truncate r \<in> set (calculate_metrics df)"
    using assms by (rule rank_campaigns_row_in)
  then obtain c where c: "c \<in> set df" "metrics.truncate r = round_metrics (derive_metrics c)"
    by (auto simp add: calculate_metrics_def)
  then have 2: "\<exists>c \<in> set df. metrics.truncate r = round_metrics (derive_metrics c)"
    by blast
  have 3: "fround2 (CTR r) = CTR r" "fround2 (CPC r) = CPC r" "fround2 (CPA r) = CPA r"
    "fround2 (conversion_rate r) = conversion_rate r" "fround2 (ROI r) = ROI r"
    using fround2_round_derive [of c] unfolding c(2) [symmetric] truncate_fields by simp_all
  have 4: "budget_avg_cpa
        (generate_recommendations (rank_campaigns argsort (calculate_metrics df)))
        = fdiv (Fin (sum_list (map spend df))) (Fin (of_int (sum_list (map conversions df))))"
    using ranked_avg_cpa [OF assms(1), of df] by (simp add: generate_recommendations_def)
  from 1 2 3 4 show ?thesis by (intro conjI)
qed

theorem downstream_values_rounded_witness:
  "argsort_ok argsort_stable
   \<and> row_R1 \<in> set (rank_campaigns argsort_stable (calculate_metrics rounding_example))
   \<and> fround2 (ROI row_R1) = ROI row_R1
   \<and> ROI row_R1 = Fin (- (9983 / 100))
   \<and> ROI (derive_metrics (rounding_example ! 0)) = Fin (- (599 / 6))"
proof -
  have m: "row_R1 \<in> set (rank_campaigns argsort_stable (calculate_metrics rounding_example))"
    by code_simp
  have v: "ROI row_R1 = Fin (- (9983 / 100))"
    by (simp add: row_R1_def)
  have u: "ROI (derive_metrics (rounding_example ! 0)) = Fin (- (599 / 6))"
    by code_simp
  have "fround2 (ROI row_R1) = ROI row_R1"
    using downstream_values_rounded [OF argsort_stable_ok m] by blast
  with argsort_stable_ok m v u show ?thesis by (intro conjI)
qed

section \<open>Empty input\<close>




section \<open>The Recommendation Classifier\<close>

subsection \<open>Median and percentile are the interpolated quantiles\<close>

lemma Fin_le_iff: "Fin x \<le> Fin y \<longleftrightarrow> x \<le> y"
  by (simp add: less_eq_fval_def)

lemma dropna_map_Fin: "dropna (map Fin xs) = map Fin xs"
  by (induction xs) (simp_all add: dropna_def)

lemma sort_map_Fin: "sort (map Fin xs) = map Fin (sort xs)"
proof (rule properties_for_sort)
  show "mset (map Fin (sort xs)) = mset (map Fin xs)" by simp
  have "sorted_wrt (\<lambda>x y. Fin x \<le> Fin y) (sort xs)"
    using sorted_sort [of xs] by (simp add: Fin_le_iff)
  then show "sorted (map Fin (sort xs))"
    by (simp add: sorted_wrt_map)
qed

lemma lerp_Fin: "lerp (Fin a) (Fin b) t = Fin (a + t * (b - a))"
  by (simp add: lerp_def fsub_def Let_def algebra_simps)

lemma sort_not_Nil: "xs \<noteq> [] \<Longrightarrow> sort xs \<noteq> []"
  by (metis length_sort length_0_conv)

lemma quantile_Fin:
  assumes "xs \<noteq> []" "0 \<le> q" "q \<le> 1"
  shows "quantile q (map Fin xs) = Fin (interpolated_quantile q xs)"
proof -
  define s where "s = sort xs"
  define h where "h = of_nat (length xs - 1) * q"
  define lo where "lo = nat \<lfloor>h\<rfloor>"
  define hi where "hi = min (lo + 1) (length xs - 1)"
  have ne: "s \<noteq> []" unfolding s_def using assms(1) by (rule sort_not_Nil)
  have len: "length s = length xs" by (simp add: s_def)
  have n: "0 < length xs" using assms(1) by simp
  have "h \<le> of_nat (length xs - 1)"
    unfolding h_def using assms(2,3) by (simp add: mult_left_le)
  then have "\<lfloor>h\<rfloor> \<le> int (length xs - 1)"
    by (simp add: floor_le_iff)
  then have lo: "lo < length s" unfolding lo_def len using n by linarith
  have "hi \<le> length xs - 1" unfolding hi_def by simp
  then have hi: "hi < length s" unfolding len using n by linarith
  have "quantile q (map Fin xs) = lerp (map Fin s ! lo) (map Fin s ! hi) (h - of_int \<lfloor>h\<rfloor>)"
    unfolding quantile_def dropna_map_Fin sort_map_Fin Let_def
      s_def [symmetric] length_map len h_def [symmetric] lo_def [symmetric] hi_def [symmetric]
    using n by simp
  also have "\<dots> = lerp (Fin (s ! lo)) (Fin (s ! hi)) (h - of_int \<lfloor>h\<rfloor>)"
    using lo hi by simp
  also have "\<dots> = Fin (s ! lo + (h - of_int \<lfloor>h\<rfloor>) * (s ! hi - s ! lo))"
    by (rule lerp_Fin)
  also have "s ! lo + (h - of_int \<lfloor>h\<rfloor>) * (s ! hi - s ! lo) = interpolated_quantile q xs"
    unfolding interpolated_quantile_def Let_def
      s_def [symmetric] h_def [symmetric] lo_def [symmetric] hi_def [symmetric] ..
  finally show ?thesis .
qed

lemma median_Fin:
  assumes "xs \<noteq> []"
  shows "median (map Fin xs) = Fin (interpolated_quantile (1 / 2) xs)"
proof -
  define s where "s = sort xs"
  define n where "n = length xs"
  have len: "length s = n" by (simp add: s_def n_def)
  have n: "0 < n" using assms(1) by (simp add: n_def)
  have med: "median (map Fin xs) =
      (if odd n then map Fin s ! (n div 2)
       else fdiv (fadd (map Fin s ! (n div 2 - 1)) (map Fin s ! (n div 2))) (Fin 2))"
    unfolding median_def dropna_map_Fin sort_map_Fin Let_def
      s_def [symmetric] length_map len
    using n by simp
  have iq: "interpolated_quantile (1 / 2) xs =
      s ! nat \<lfloor>rat_of_nat (n - 1) * (1 / 2)\<rfloor>
      + (rat_of_nat (n - 1) * (1 / 2) - of_int \<lfloor>rat_of_nat (n - 1) * (1 / 2)\<rfloor>)
        * (s ! min (nat \<lfloor>rat_of_nat (n - 1) * (1 / 2)\<rfloor> + 1) (n - 1)
           - s ! nat \<lfloor>rat_of_nat (n - 1) * (1 / 2)\<rfloor>)"
    unfolding interpolated_quantile_def Let_def s_def [symmetric] n_def [symmetric] ..
  show ?thesis
  proof (cases "odd n")
    case True
    then obtain k where k: "n = 2 * k + 1" by (auto elim: oddE)
    have h: "rat_of_nat (n - 1) * (1 / 2) = of_nat k" by (simp add: k)
    have kn: "k < length s" unfolding len k by simp
    have "n div 2 = k" by (simp add: k)
    with True kn have "median (map Fin xs) = Fin (s ! k)"
      unfolding med by simp
    moreover have "interpolated_quantile (1 / 2) xs = s ! k"
      unfolding iq h by simp
    ultimately show ?thesis by simp
  next
    case False
    then obtain j where j: "n = 2 * j" by (auto elim: evenE)
    with n obtain k where k: "n = 2 * k + 2" by (cases j) auto
    have h: "rat_of_nat (n - 1) * (1 / 2) = of_nat k + 1 / 2" by (simp add: k field_simps)
    have fl: "\<lfloor>rat_of_nat k + 1 / 2\<rfloor> = int k" by linarith
    have kn: "k < length s" "k + 1 < length s" unfolding len k by simp_all
    have d: "n div 2 = k + 1" "n div 2 - 1 = k" by (simp_all add: k)
    have "median (map Fin xs) = fdiv (fadd (Fin (s ! k)) (Fin (s ! (k + 1)))) (Fin 2)"
      unfolding med d using False kn by simp
    then have m: "median (map Fin xs) = Fin ((s ! k + s ! (k + 1)) / 2)"
      by simp
    have "min (k + 1) (n - 1) = k + 1" by (simp add: k)
    then have "interpolated_quantile (1 / 2) xs = s ! k + (1 / 2) * (s ! (k + 1) - s ! k)"
      unfolding iq h fl by simp
    also have "\<dots> = (s ! k + s ! (k + 1)) / 2" by (simp add: field_simps)
    finally show ?thesis using m by simp
  qed
qed

subsection \<open>Comparisons\<close>

lemma flt_irrefl: "\<not> flt v v"
  by (simp add: flt_def)

lemma fgt_irrefl: "\<not> fgt v v"
  by (simp add: fgt_def flt_def)

lemma flt_NaN: "\<not> flt NaN b" "\<not> flt a NaN"
  by (simp_all add: flt_def)

lemma fgt_NaN: "\<not> fgt NaN b" "\<not> fgt a NaN"
  by (simp_all add: fgt_def flt_def)

lemma flt_fgt_cases: "flt a v \<or> fgt a v \<or> a = NaN \<or> v = NaN \<or> a = v"
  by (auto simp add: flt_def fgt_def)

lemma flt_fgt_exclusive:
  "\<not> (flt a v \<and> fgt a v)"
  "\<not> (flt a v \<and> (a = NaN \<or> v = NaN \<or> a = v))"
  "\<not> (fgt a v \<and> (a = NaN \<or> v = NaN \<or> a = v))"
  by (auto simp add: flt_def fgt_def)

lemma three_way_count:
  "length (filter (\<lambda>r. flt (CPA r) v) rs) + length (filter (\<lambda>r. fgt (CPA r) v) rs)
     + length (filter (\<lambda>r. CPA r = NaN \<or> v = NaN \<or> CPA r = v) rs)
   = length rs"
proof (induction rs)
  case Nil
  show ?case by simp
next
  case (Cons x rs)
  then show ?case
    using flt_fgt_cases [of "CPA x" v] flt_fgt_exclusive [of "CPA x" v] by auto
qed

subsection \<open>High traffic, low conversion\<close>

text \<open>
  Claim C5. The high-traffic/low-conversion section selects exactly the rows of the
  ranked table whose CTR is strictly greater than the 75th percentile of all CTR values
  and whose conversion rate is strictly less than the median of all conversion rates; a
  row equal to a threshold is left out. Both thresholds are computed over the whole
  table, and on a column of numbers they are the linearly interpolated quantiles
  \<open>3/4\<close> and \<open>1/2\<close> of the sorted values. For the values 1, 2, 3, 4 the median is 2.5 and
  the 75th percentile 3.25; for the odd count 1, 2, 3 they are 2 and 2.5. The computation
  is a function of the column, hence deterministic.
\<close>

theorem high_ctr_low_conv_selection:
  "(r \<in> set (high_ctr_low_conv df) \<longleftrightarrow>
      r \<in> set df \<and> fgt (CTR r) (quantile (3 / 4) (map CTR df))
        \<and> flt (conversion_rate r) (median (map conversion_rate df)))
   \<and> landing_page (generate_recommendations df) = high_ctr_low_conv df
   \<and> (CTR r = quantile (3 / 4) (map CTR df) \<longrightarrow> r \<notin> set (high_ctr_low_conv df))
   \<and> (conversion_rate r = median (map conversion_rate df) \<longrightarrow>
        r \<notin> set (high_ctr_low_conv df))
   \<and> (xs \<noteq> [] \<longrightarrow>
        quantile (3 / 4) (map Fin xs) = Fin (interpolated_quantile (3 / 4) xs)
        \<and> median (map Fin xs) = Fin (interpolated_quantile (1 / 2) xs))
   \<and> median [Fin 1, Fin 2, Fin 3, Fin 4] = Fin (5 / 2)
   \<and> quantile (3 / 4) [Fin 1, Fin 2, Fin 3, Fin 4] = Fin (13 / 4)
   \<and> median [Fin 1, Fin 2, Fin 3] = Fin 2
   \<and> quantile (3 / 4) [Fin 1, Fin 2, Fin 3] = Fin (5 / 2)"
proof -
  have 1: "r \<in> set (high_ctr_low_conv df) \<longleftrightarrow>
      r \<in> set df \<and> fgt (CTR r) (quantile (3 / 4) (map CTR df))
        \<and> flt (conversion_rate r) (median (map conversion_rate df))"
    by (simp add: high_ctr_low_conv_def)
  have 2: "landing_page (generate_recommendations df) = high_ctr_low_conv df"
    by (simp add: generate_recommendations_def)
  have 3: "CTR r = quantile (3 / 4) (map CTR df) \<longrightarrow> r \<notin> set (high_ctr_low_conv df)"
    using fgt_irrefl by (simp add: high_ctr_low_conv_def)
  have 4: "conversion_rate r = median (map conversion_rate df) \<longrightarrow>
        r \<notin> set (high_ctr_low_conv df)"
    using flt_irrefl by (simp add: high_ctr_low_conv_def)
  have 5: "xs \<noteq> [] \<longrightarrow>
        quantile (3 / 4) (map Fin xs) = Fin (interpolated_quantile (3 / 4) xs)
        \<and> median (map Fin xs) = Fin (interpolated_quantile (1 / 2) xs)"
    by (simp add: quantile_Fin median_Fin)
  have 6: "median [Fin 1, Fin 2, Fin 3, Fin 4] = Fin (5 / 2)" by code_simp
  have 7: "quantile (3 / 4) [Fin 1, Fin 2, Fin 3, Fin 4] = Fin (13 / 4)" by code_simp
  have 8: "median [Fin 1, Fin 2, Fin 3] = Fin 2" by code_simp
  have 9: "quantile (3 / 4) [Fin 1, Fin 2, Fin 3] = Fin (5 / 2)" by code_simp
  from 1 2 3 4 5 6 7 8 9 show ?thesis by (intro conjI)
qed

text \<open>The table of the four campaigns has the CTR values 3, 1, 2, 4 in ranked order;
  only c4 exceeds 3.25, and its conversion rate 25 is below the median 75.\<close>

theorem high_ctr_low_conv_selection_witness:
  "[1, 2, 3, 4 :: rat] \<noteq> []
   \<and> quantile (3 / 4) (map Fin [1, 2, 3, 4]) = Fin (interpolated_quantile (3 / 4) [1, 2, 3, 4])
   \<and> interpolated_quantile (3 / 4) [1, 2, 3, 4] = 13 / 4
   \<and> median (map Fin [1, 2, 3, 4]) = Fin (interpolated_quantile (1 / 2) [1, 2, 3, 4])
   \<and> interpolated_quantile (1 / 2) [1, 2, 3, 4] = 5 / 2
   \<and> map CTR (rank_campaigns argsort_stable (calculate_metrics ctr_example))
       = [Fin 3, Fin 1, Fin 2, Fin 4]
   \<and> map conversion_rate (rank_campaigns argsort_stable (calculate_metrics ctr_example))
       = [Fin 100, Fin 100, Fin 50, Fin 25]
   \<and> row_c4 \<in> set (high_ctr_low_conv
        (rank_campaigns argsort_stable (calculate_metrics ctr_example)))
   \<and> high_ctr_low_conv (rank_campaigns argsort_stable (calculate_metrics ctr_example))
       = [row_c4]"
proof -
  have h: "[1, 2, 3, 4 :: rat] \<noteq> []" by simp
  note t = high_ctr_low_conv_selection
    [of row_c4 "rank_campaigns argsort_stable (calculate_metrics ctr_example)" "[1, 2, 3, 4]"]
  from t h have q: "quantile (3 / 4) (map Fin [1, 2, 3, 4])
      = Fin (interpolated_quantile (3 / 4) [1, 2, 3, 4])"
    by blast
  from t h have m: "median (map Fin [1, 2, 3, 4])
      = Fin (interpolated_quantile (1 / 2) [1, 2, 3, 4])"
    by blast
  have iq: "interpolated_quantile (3 / 4) [1, 2, 3, 4] = 13 / 4" by code_simp
  have im: "interpolated_quantile (1 / 2) [1, 2, 3, 4] = 5 / 2" by code_simp
  have c: "map CTR (rank_campaigns argsort_stable (calculate_metrics ctr_example))
       = [Fin 3, Fin 1, Fin 2, Fin 4]" by code_simp
  have v: "map conversion_rate (rank_campaigns argsort_stable (calculate_metrics ctr_example))
       = [Fin 100, Fin 100, Fin 50, Fin 25]" by code_simp
  have s: "high_ctr_low_conv (rank_campaigns argsort_stable (calculate_metrics ctr_example))
       = [row_c4]" by code_simp
  then have e: "row_c4 \<in> set (high_ctr_low_conv
        (rank_campaigns argsort_stable (calculate_metrics ctr_example)))"
    by simp
  from h q iq m im c v e s show ?thesis by (intro conjI)
qed

subsection \<open>Budget allocation\<close>



subsection \<open>Quick wins\<close>

text \<open>
  Claim C7. The quick-wins section selects exactly the rows whose ROI is strictly
  greater than the median ROI of the whole table and whose spend is strictly less than
  the median spend of the whole table; a row whose ROI or spend equals the median is left
  out. An empty selection is no error: the section then takes the branch that reports
  that there are no quick wins.
\<close>

theorem quick_wins_selection:
  "(r \<in> set (quick_wins df) \<longleftrightarrow>
      r \<in> set df \<and> fgt (ROI r) (median (map ROI df))
        \<and> flt (Fin (spend r)) (median (map (\<lambda>r. Fin (spend r)) df)))
   \<and> (ROI r = median (map ROI df) \<longrightarrow> r \<notin> set (quick_wins df))
   \<and> (Fin (spend r) = median (map (\<lambda>r. Fin (spend r)) df) \<longrightarrow> r \<notin> set (quick_wins df))
   \<and> (quick_wins df = [] \<longrightarrow> quick (generate_recommendations df) = No_quick_wins)
   \<and> (quick_wins df \<noteq> [] \<longrightarrow>
         quick (generate_recommendations df) = Scale_up (quick_wins df))"
proof -
  have 1: "r \<in> set (quick_wins df) \<longleftrightarrow>
      r \<in> set df \<and> fgt (ROI r) (median (map ROI df))
        \<and> flt (Fin (spend r)) (median (map (\<lambda>r. Fin (spend r)) df))"
    by (simp add: quick_wins_def)
  have 2: "ROI r = median (map ROI df) \<longrightarrow> r \<notin> set (quick_wins df)"
    using fgt_irrefl by (simp add: quick_wins_def)
  have 3: "Fin (spend r) = median (map (\<lambda>r. Fin (spend r)) df) \<longrightarrow>
        r \<notin> set (quick_wins df)"
    using flt_irrefl by (simp add: quick_wins_def)
  have 4: "quick_wins df = [] \<longrightarrow> quick (generate_recommendations df) = No_quick_wins"
    by (simp add: generate_recommendations_def quick_wins_section_def)
  have 5: "quick_wins df \<noteq> [] \<longrightarrow>
         quick (generate_recommendations df) = Scale_up (quick_wins df)"
    by (simp add: generate_recommendations_def quick_wins_section_def)
  from 1 2 3 4 5 show ?thesis by (intro conjI)
qed

text \<open>In the specification's scenario A is the quick win: its ROI 150 exceeds the median
  33.335 and its spend 200 is below the median 250. In the table with the single row Z the
  ROI of Z is the median, Z is left out, and the section reports no quick wins.\<close>

theorem quick_wins_selection_witness:
  "quick_wins (rank_campaigns argsort_stable (calculate_metrics spec_example)) = [row_A]
   \<and> quick (generate_recommendations
         (rank_campaigns argsort_stable (calculate_metrics spec_example)))
       = Scale_up [row_A]
   \<and> ROI row_Z
       = median (map ROI (rank_campaigns argsort_stable (calculate_metrics no_conversions_example)))
   \<and> row_Z \<in> set (rank_campaigns argsort_stable (calculate_metrics no_conversions_example))
   \<and> row_Z \<notin> set (quick_wins
         (rank_campaigns argsort_stable (calculate_metrics no_conversions_example)))
   \<and> quick_wins (rank_campaigns argsort_stable (calculate_metrics no_conversions_example)) = []
   \<and> quick (generate_recommendations
         (rank_campaigns argsort_stable (calculate_metrics no_conversions_example)))
       = No_quick_wins"
proof -
  note a = quick_wins_selection
    [of row_A "rank_campaigns argsort_stable (calculate_metrics spec_example)"]
  note z = quick_wins_selection
    [of row_Z "rank_campaigns argsort_stable (calculate_metrics no_conversions_example)"]
  have q: "quick_wins (rank_campaigns argsort_stable (calculate_metrics spec_example))
       = [row_A]"
    by code_simp
  then have ne: "quick_wins (rank_campaigns argsort_stable (calculate_metrics spec_example))
       \<noteq> []"
    by simp
  from a ne have "quick (generate_recommendations
         (rank_campaigns argsort_stable (calculate_metrics spec_example)))
       = Scale_up (quick_wins (rank_campaigns argsort_stable (calculate_metrics spec_example)))"
    by blast
  then have s: "quick (generate_recommendations
         (rank_campaigns argsort_stable (calculate_metrics spec_example)))
       = Scale_up [row_A]"
    unfolding q .
  have e: "ROI row_Z
       = median (map ROI (rank_campaigns argsort_stable (calculate_metrics no_conversions_example)))"
    by code_simp
  have m: "row_Z \<in> set (rank_campaigns argsort_stable (calculate_metrics no_conversions_example))"
    by code_simp
  from z e have n: "row_Z \<notin> set (quick_wins
         (rank_campaigns argsort_stable (calculate_metrics no_conversions_example)))"
    by blast
  have em: "quick_wins (rank_campaigns argsort_stable (calculate_metrics no_conversions_example))
       = []"
    by code_simp
  with z have nq: "quick (generate_recommendations
         (rank_campaigns argsort_stable (calculate_metrics no_conversions_example)))
       = No_quick_wins"
    by blast
  from q s e m n em nq show ?thesis by (intro conjI)
qed

subsection \<open>Rows with not-a-number metrics\<close>

text \<open>
  Claim C10. A row with a not-a-number metric is silently left out of every filter that
  compares this metric, because each comparison with not-a-number is false: a row whose
  CTR or conversion rate is not-a-number is never in the high-traffic/low-conversion
  section, a row whose CPA is not-a-number is in neither budget partition, and a row
  whose ROI is not-a-number is never a quick win. The two partition counts and the number
  of rows that cannot be compared or equal the average add up to the number of rows, so
  the two counts can add up to less: for A, B and the row without activity they are 1
  and 1 out of 3 rows.
\<close>

theorem nan_rows_excluded:
  "(CTR r = NaN \<or> conversion_rate r = NaN \<longrightarrow> r \<notin> set (high_ctr_low_conv df))
   \<and> (CPA r = NaN \<longrightarrow>
         r \<notin> set (efficient_campaigns df) \<and> r \<notin> set (inefficient_campaigns df))
   \<and> (ROI r = NaN \<longrightarrow> r \<notin> set (quick_wins df))
   \<and> above_average (generate_recommendations df) + below_average (generate_recommendations df)
         + length (filter (\<lambda>r. CPA r = NaN \<or> avg_cpa df = NaN \<or> CPA r = avg_cpa df) df)
       = length df
   \<and> above_average (generate_recommendations
         (rank_campaigns argsort_stable (calculate_metrics nan_example)))
       + below_average (generate_recommendations
         (rank_campaigns argsort_stable (calculate_metrics nan_example)))
       < length (rank_campaigns argsort_stable (calculate_metrics nan_example))"
proof -
  have 1: "CTR r = NaN \<or> conversion_rate r = NaN \<longrightarrow> r \<notin> set (high_ctr_low_conv df)"
    using flt_NaN fgt_NaN by (auto simp add: high_ctr_low_conv_def)
  have 2: "CPA r = NaN \<longrightarrow>
         r \<notin> set (efficient_campaigns df) \<and> r \<notin> set (inefficient_campaigns df)"
    using flt_NaN fgt_NaN by (simp add: efficient_campaigns_def inefficient_campaigns_def)
  have 3: "ROI r = NaN \<longrightarrow> r \<notin> set (quick_wins df)"
    using fgt_NaN by (simp add: quick_wins_def)
  have 4: "above_average (generate_recommendations df) + below_average (generate_recommendations df)
         + length (filter (\<lambda>r. CPA r = NaN \<or> avg_cpa df = NaN \<or> CPA r = avg_cpa df) df)
       = length df"
    using three_way_count [of "avg_cpa df" df]
    by (simp add: generate_recommendations_def efficient_campaigns_def inefficient_campaigns_def)
  have 5: "above_average (generate_recommendations
         (rank_campaigns argsort_stable (calculate_metrics nan_example)))
       + below_average (generate_recommendations
         (rank_campaigns argsort_stable (calculate_metrics nan_example)))
       < length (rank_campaigns argsort_stable (calculate_metrics nan_example))"
    by code_simp
  from 1 2 3 4 5 show ?thesis by (intro conjI)
qed

theorem nan_rows_excluded_witness:
  "CTR row_N = NaN \<and> CPA row_N = NaN \<and> ROI row_N = NaN
   \<and> row_N \<in> set (rank_campaigns argsort_stable (calculate_metrics nan_example))
   \<and> row_N \<notin> set (high_ctr_low_conv
         (rank_campaigns argsort_stable (calculate_metrics nan_example)))
   \<and> row_N \<notin> set (efficient_campaigns
         (rank_campaigns argsort_stable (calculate_metrics nan_example)))
   \<and> row_N \<notin> set (inefficient_campaigns
         (rank_campaigns argsort_stable (calculate_metrics nan_example)))
   \<and> row_N \<notin> set (quick_wins
         (rank_campaigns argsort_stable (calculate_metrics nan_example)))
   \<and> above_average (generate_recommendations
         (rank_campaigns argsort_stable (calculate_metrics nan_example))) = 1
   \<and> below_average (generate_recommendations
         (rank_campaigns argsort_stable (calculate_metrics nan_example))) = 1
   \<and> length (rank_campaigns argsort_stable (calculate_metrics nan_example)) = 3"
proof -
  note t = nan_rows_excluded
    [of row_N "rank_campaigns argsort_stable (calculate_metrics nan_example)"]
  have a: "CTR row_N = NaN" by (simp add: row_N_def)
  have b: "CPA row_N = NaN" by (simp add: row_N_def)
  have c: "ROI row_N = NaN" by (simp add: row_N_def)
  have m: "row_N \<in> set (rank_campaigns argsort_stable (calculate_metrics nan_example))"
    by code_simp
  from t a have 1: "row_N \<notin> set (high_ctr_low_conv
         (rank_campaigns argsort_stable (calculate_metrics nan_example)))"
    by blast
  from t b have 2: "row_N \<notin> set (efficient_campaigns
         (rank_campaigns argsort_stable (calculate_metrics nan_example)))"
    by blast
  from t b have 3: "row_N \<notin> set (inefficient_campaigns
         (rank_campaigns argsort_stable (calculate_metrics nan_example)))"
    by blast
  from t c have 4: "row_N \<notin> set (quick_wins
         (rank_campaigns argsort_stable (calculate_metrics nan_example)))"
    by blast
  have u: "above_average (generate_recommendations
         (rank_campaigns argsort_stable (calculate_metrics nan_example))) = 1"
    by code_simp
  have l: "below_average (generate_recommendations
         (rank_campaigns argsort_stable (calculate_metrics nan_example))) = 1"
    by code_simp
  have n: "length (rank_campaigns argsort_stable (calculate_metrics nan_example)) = 3"
    by code_simp
  from a b c m 1 2 3 4 u l n show ?thesis by (intro conjI)
qed

end
